theory Spec2Isabelle
  imports Complex_Main "HOL-Library.AList"
begin

section \<open>Strings\<close>

text \<open>
  Go strings and byte slices are byte sequences, modelled as \<open>string\<close> (a list of
  8-bit characters). The helpers below are the functions of Go's \<open>strings\<close> package
  that the program calls. Every call of \<open>strings.Split\<close> in the program has a
  one-byte separator, so the separator is a single character here.
\<close>

fun Split :: "string \<Rightarrow> char \<Rightarrow> string list" where
  "Split [] sep = [[]]"
| "Split (c # cs) sep =
     (if c = sep then [] # Split cs sep
      else (case Split cs sep of [] \<Rightarrow> [[c]] | x # xs \<Rightarrow> (c # x) # xs))"

fun Join :: "string list \<Rightarrow> string \<Rightarrow> string" where
  "Join [] sep = []"
| "Join [x] sep = x"
| "Join (x # y # ys) sep = x @ sep @ Join (y # ys) sep"

text \<open>
  \<open>strings.ToLower\<close> on ASCII: the letters A to Z are mapped to a to z and every
  other byte is kept. (Go also folds letters outside ASCII; the values lowered by the
  program are configuration keywords, the word Bearer and GitHub login names.)
\<close>

definition lower_char :: "char \<Rightarrow> char" where
  "lower_char c =
     (if 65 \<le> (of_char c :: nat) \<and> (of_char c :: nat) \<le> 90
      then char_of ((of_char c :: nat) + 32) else c)"

definition ToLower :: "string \<Rightarrow> string" where
  "ToLower s = map lower_char s"

section \<open>Package cve: advisories and the admission decision\<close>

text \<open>
  The \<open>float64\<close> scores are modelled as real numbers: a decimal score compares with
  the decimal bounds of \<open>severity\<close> as their nearest doubles do. The nested
  \<open>Related\<close> struct is flattened into two fields.
\<close>

record GemAdvisory =
  Gem :: string
  Cve :: string
  Date :: string
  URL :: string
  Title :: string
  Description :: string
  CvssV2 :: real
  CvssV3 :: real
  PatchedVersions :: "string list"
  UnaffectedVersions :: "string list"
  RelatedCve :: "string list"
  RelatedURL :: "string list"

text \<open>The zero value \<open>GemAdvisory{}\<close>.\<close>

definition GemAdvisory_zero :: GemAdvisory where
  "GemAdvisory_zero =
     \<lparr>Gem = [], Cve = [], Date = [], URL = [], Title = [], Description = [],
      CvssV2 = 0, CvssV3 = 0, PatchedVersions = [], UnaffectedVersions = [],
      RelatedCve = [], RelatedURL = []\<rparr>"

datatype version_error = MalformedVersion

text \<open>
  The version library (go-gem-version) is not part of the program. Its parser
  \<open>ggv.NewVersion\<close> is the parameter \<open>NewVersion\<close> (\<open>None\<close> when it returns an
  error) and \<open>Check pv v\<close> stands for \<open>c, _ := ggv.NewConstraints(pv); c.Check(v)\<close>.
  The advisory cache is a map from gem names to advisory lists.
\<close>

fun isPatchedVersion_loop :: "(string \<Rightarrow> 'v \<Rightarrow> bool) \<Rightarrow> 'v \<Rightarrow> string list \<Rightarrow> bool" where
  "isPatchedVersion_loop Check version [] = False"
| "isPatchedVersion_loop Check version (pv # pvs) =
     (if Check pv version then True else isPatchedVersion_loop Check version pvs)"

definition isPatchedVersion :: "(string \<Rightarrow> 'v \<Rightarrow> bool) \<Rightarrow> 'v \<Rightarrow> GemAdvisory \<Rightarrow> bool" where
  "isPatchedVersion Check version cve =
     isPatchedVersion_loop Check version (PatchedVersions cve)"

fun isUnaffectedVersion_loop :: "(string \<Rightarrow> 'v \<Rightarrow> bool) \<Rightarrow> 'v \<Rightarrow> string list \<Rightarrow> bool" where
  "isUnaffectedVersion_loop Check version [] = False"
| "isUnaffectedVersion_loop Check version (pv # pvs) =
     (if Check pv version then True else isUnaffectedVersion_loop Check version pvs)"

definition isUnaffectedVersion :: "(string \<Rightarrow> 'v \<Rightarrow> bool) \<Rightarrow> 'v \<Rightarrow> GemAdvisory \<Rightarrow> bool" where
  "isUnaffectedVersion Check version cve =
     isUnaffectedVersion_loop Check version (UnaffectedVersions cve)"

fun isPatched_loop ::
  "(string \<Rightarrow> 'v \<Rightarrow> bool) \<Rightarrow> 'v \<Rightarrow> GemAdvisory list \<Rightarrow> bool \<times> GemAdvisory \<times> version_error option"
where
  "isPatched_loop Check gv [] = (True, GemAdvisory_zero, None)"
| "isPatched_loop Check gv (cve # cves) =
     (if \<not> isPatchedVersion Check gv cve then (False, cve, None)
      else isPatched_loop Check gv cves)"

definition isPatched ::
  "(string \<Rightarrow> 'v option) \<Rightarrow> (string \<Rightarrow> 'v \<Rightarrow> bool) \<Rightarrow> (string \<rightharpoonup> GemAdvisory list) \<Rightarrow>
   string \<Rightarrow> string \<Rightarrow> bool \<times> GemAdvisory \<times> version_error option"
where
  "isPatched NewVersion Check cache gem version =
     (case cache gem of
        None \<Rightarrow> (True, GemAdvisory_zero, None)
      | Some cves \<Rightarrow>
          (case NewVersion version of
             None \<Rightarrow> (False, GemAdvisory_zero, Some MalformedVersion)
           | Some gv \<Rightarrow> isPatched_loop Check gv cves))"

fun isUnaffected_loop ::
  "(string \<Rightarrow> 'v \<Rightarrow> bool) \<Rightarrow> 'v \<Rightarrow> GemAdvisory list \<Rightarrow> bool \<times> GemAdvisory \<times> version_error option"
where
  "isUnaffected_loop Check gv [] = (True, GemAdvisory_zero, None)"
| "isUnaffected_loop Check gv (cve # cves) =
     (if \<not> isUnaffectedVersion Check gv cve then (False, cve, None)
      else isUnaffected_loop Check gv cves)"

definition isUnaffected ::
  "(string \<Rightarrow> 'v option) \<Rightarrow> (string \<Rightarrow> 'v \<Rightarrow> bool) \<Rightarrow> (string \<rightharpoonup> GemAdvisory list) \<Rightarrow>
   string \<Rightarrow> string \<Rightarrow> bool \<times> GemAdvisory \<times> version_error option"
where
  "isUnaffected NewVersion Check cache gem version =
     (case cache gem of
        None \<Rightarrow> (True, GemAdvisory_zero, None)
      | Some cves \<Rightarrow>
          (case NewVersion version of
             None \<Rightarrow> (False, GemAdvisory_zero, Some MalformedVersion)
           | Some gv \<Rightarrow> isUnaffected_loop Check gv cves))"

definition severity :: "GemAdvisory \<Rightarrow> string" where
  "severity cve =
     (if CvssV3 cve \<noteq> 0 then
        (if CvssV3 cve = 0.0 then ''none''
         else if CvssV3 cve \<ge> 0.1 \<and> CvssV3 cve \<le> 3.9 then ''low''
         else if CvssV3 cve \<ge> 4.0 \<and> CvssV3 cve \<le> 6.9 then ''medium''
         else if CvssV3 cve \<ge> 7.0 \<and> CvssV3 cve \<le> 8.9 then ''high''
         else if CvssV3 cve \<ge> 9.0 \<and> CvssV3 cve \<le> 10.0 then ''critical''
         else ''none'')
      else if CvssV2 cve \<noteq> 0 then
        (if CvssV2 cve = 0.0 \<and> CvssV2 cve \<le> 3.9 then ''low''
         else if CvssV2 cve \<ge> 4.0 \<and> CvssV2 cve \<le> 6.9 then ''medium''
         else if CvssV2 cve \<ge> 7.0 \<and> CvssV2 cve \<le> 10.0 then ''high''
         else ''none'')
      else ''none'')"

text \<open>\<open>MaxSeverity\<close> is \<open>config.Cfg.CVE.MaxSeverity\<close>.\<close>

definition acceptableSeverity :: "string \<Rightarrow> GemAdvisory \<Rightarrow> bool" where
  "acceptableSeverity MaxSeverity cve =
     (let sev = severity cve;
          highestSeverity = ToLower MaxSeverity
      in if sev = ''none'' \<or> highestSeverity = ''critical'' then True
         else if highestSeverity = ''low'' then False
         else if highestSeverity = ''medium'' then sev = ''low'' \<or> sev = ''medium''
         else if highestSeverity = ''high'' then
           sev = ''low'' \<or> sev = ''medium'' \<or> sev = ''high''
         else True)"

definition GetCVEs ::
  "(string \<Rightarrow> 'v option) \<Rightarrow> (string \<Rightarrow> 'v \<Rightarrow> bool) \<Rightarrow> (string \<rightharpoonup> GemAdvisory list) \<Rightarrow>
   string \<Rightarrow> string \<Rightarrow> string \<Rightarrow> GemAdvisory list"
where
  "GetCVEs NewVersion Check cache MaxSeverity gem version =
     (case isPatched NewVersion Check cache gem version of
        (patched, cve1, _) \<Rightarrow>
          if \<not> patched then
            (let cves = (if \<not> acceptableSeverity MaxSeverity cve1 then [cve1] else [])
             in case isUnaffected NewVersion Check cache gem version of
                  (unaffected, cve2, _) \<Rightarrow>
                    if \<not> unaffected then
                      (if Cve cve2 \<noteq> Cve cve1 then
                         (if \<not> acceptableSeverity MaxSeverity cve1 then cves @ [cve2]
                          else cves)
                       else cves)
                    else cves)
          else [])"

subsection \<open>A small version library to run the model\<close>

text \<open>
  To evaluate the admission decision on concrete inputs the two parameters are
  instantiated with a reader of dotted decimal versions (\<open>1.5\<close>, \<open>4.2.0\<close>) and of
  constraints made of one comparison operator, a space and a version
  (\<open>>= 4.2.1\<close>), compared segment by segment as RubyGems compares release versions.
\<close>

definition digit_of :: "char \<Rightarrow> nat option" where
  "digit_of c =
     (if 48 \<le> (of_char c :: nat) \<and> (of_char c :: nat) \<le> 57
      then Some ((of_char c :: nat) - 48) else None)"

fun number_of :: "string \<Rightarrow> nat \<Rightarrow> nat option" where
  "number_of [] acc = Some acc"
| "number_of (c # cs) acc =
     (case digit_of c of None \<Rightarrow> None | Some d \<Rightarrow> number_of cs (10 * acc + d))"

fun segments :: "string list \<Rightarrow> nat list option" where
  "segments [] = Some []"
| "segments (s # ss) =
     (if s = [] then None
      else case number_of s 0 of
             None \<Rightarrow> None
           | Some n \<Rightarrow> (case segments ss of None \<Rightarrow> None | Some ns \<Rightarrow> Some (n # ns)))"

definition dotted_NewVersion :: "string \<Rightarrow> nat list option" where
  "dotted_NewVersion s = segments (Split s CHR ''.'')"

fun dotted_less :: "nat list \<Rightarrow> nat list \<Rightarrow> bool" where
  "dotted_less [] [] = False"
| "dotted_less [] (y # ys) = (0 < y \<or> dotted_less [] ys)"
| "dotted_less (x # xs) [] = False"
| "dotted_less (x # xs) (y # ys) = (x < y \<or> (x = y \<and> dotted_less xs ys))"

definition dotted_Check :: "string \<Rightarrow> nat list \<Rightarrow> bool" where
  "dotted_Check pv v =
     (case Split pv CHR '' '' of
        [cmp, w] \<Rightarrow>
          (case dotted_NewVersion w of
             None \<Rightarrow> False
           | Some wv \<Rightarrow>
               if cmp = ''>='' then \<not> dotted_less v wv
               else if cmp = ''>'' then dotted_less wv v
               else if cmp = ''<='' then \<not> dotted_less wv v
               else if cmp = ''<'' then dotted_less v wv
               else if cmp = ''='' then \<not> dotted_less v wv \<and> \<not> dotted_less wv v
               else False)
      | _ \<Rightarrow> False)"

text \<open>Advisories used to run the decision on concrete inputs.\<close>

definition advisory_critical :: GemAdvisory where
  "advisory_critical =
     GemAdvisory_zero\<lparr>Gem := ''rack'', Cve := ''2020-0001'', CvssV3 := 9.8,
       PatchedVersions := [''>= 2.0'']\<rparr>"

definition advisory_low :: GemAdvisory where
  "advisory_low =
     GemAdvisory_zero\<lparr>Gem := ''rack'', Cve := ''2019-0002'', CvssV3 := 2.0,
       PatchedVersions := [''>= 1.0'']\<rparr>"

definition advisory_high :: GemAdvisory where
  "advisory_high =
     GemAdvisory_zero\<lparr>Gem := ''rack'', Cve := ''2021-0003'', CvssV3 := 7.5,
       PatchedVersions := [''>= 3.0'']\<rparr>"

section \<open>Package models: gems\<close>

text \<open>
  \<open>GemFromGemParameter\<close> walks the chunks of the parameter with their index: the
  chunk at the last index becomes the version and ends the loop, every earlier chunk
  is appended to the name.
\<close>

record Gem =
  Name :: string
  Number :: string
  Platform :: string

fun GemFromGemParameter_loop ::
  "nat \<Rightarrow> nat \<Rightarrow> string list \<Rightarrow> string list \<Rightarrow> string \<Rightarrow> string list \<times> string"
where
  "GemFromGemParameter_loop i l [] gemName gemVersion = (gemName, gemVersion)"
| "GemFromGemParameter_loop i l (chunk # chunks) gemName gemVersion =
     (if i + 1 = l then (gemName, chunk)
      else GemFromGemParameter_loop (i + 1) l chunks (gemName @ [chunk]) gemVersion)"

definition GemFromGemParameter :: "string \<Rightarrow> Gem" where
  "GemFromGemParameter param =
     (let chunks = Split param CHR ''-'';
          l = length chunks
      in case GemFromGemParameter_loop 0 l chunks [] [] of
           (gemName, gemVersion) \<Rightarrow>
             \<lparr>Name = Join gemName ''-'', Number = gemVersion, Platform = []\<rparr>)"

section \<open>Package models: users\<close>

text \<open>
  The user bucket of the key-value store is an association list from keys to stored
  bytes; \<open>Get\<close> reads the first entry of a key. \<open>Put\<close> and \<open>Delete\<close> are the
  operations of the store on a writable transaction, with the size checks \<open>Put\<close>
  makes before it writes.
\<close>

type_synonym bucket = "(string \<times> string) list"

datatype error =
    UnmarshalError
  | ErrHashTooShort
  | ErrMismatchedHashAndPassword
  | ErrPasswordRejected
  | ErrKeyRequired
  | ErrKeyTooLarge
  | ErrValueTooLarge
  | ErrMissingLoginValues
  | ErrFailedAuthentication

text \<open>A call either returns or panics.\<close>

datatype 'a outcome = Panics | Returns 'a

definition Get :: "bucket \<Rightarrow> string \<Rightarrow> string option" where
  "Get b key = map_of b key"





record User =
  Username :: string
  Password :: string
  Token :: string

definition User_zero :: User where
  "User_zero = \<lparr>Username = [], Password = [], Token = []\<rparr>"

text \<open>
  \<open>json.Unmarshal\<close> into a \<open>*User\<close> is the parameter \<open>unmarshal\<close>: it fails, or
  leaves the pointer nil (the JSON value null), or yields a user.
\<close>

datatype unmarshalled = Malformed | Null | Value User

definition userFromBytes ::
  "(string \<Rightarrow> unmarshalled) \<Rightarrow> string \<Rightarrow> User option \<times> error option" where
  "userFromBytes unmarshal data =
     (case unmarshal data of
        Malformed \<Rightarrow> (None, Some UnmarshalError)
      | Null \<Rightarrow> (None, None)
      | Value p \<Rightarrow> (Some p, None))"

definition GetUser ::
  "(string \<Rightarrow> unmarshalled) \<Rightarrow> bucket \<Rightarrow> string \<Rightarrow> (User \<times> error option) outcome" where
  "GetUser unmarshal b username =
     (let existing = (case Get b username of None \<Rightarrow> [] | Some userBytes \<Rightarrow> userBytes)
      in if length existing = 0 then Returns (User_zero, None)
         else case userFromBytes unmarshal existing of
                (_, Some err) \<Rightarrow> Returns (User_zero, Some err)
              | (None, None) \<Rightarrow> Panics
              | (Some user, None) \<Rightarrow> Returns (user, None))"

text \<open>
  \<open>bcrypt.CompareHashAndPassword\<close> refuses a hash shorter than 59 bytes before it
  looks at the password; the comparison proper is the parameter \<open>compare\<close>.
\<close>

definition CompareHashAndPassword ::
  "(string \<Rightarrow> string \<Rightarrow> error option) \<Rightarrow> string \<Rightarrow> string \<Rightarrow> error option" where
  "CompareHashAndPassword compare hashedPassword password =
     (if length hashedPassword < 59 then Some ErrHashTooShort
      else compare hashedPassword password)"

definition AuthenticateLocalUser ::
  "(string \<Rightarrow> unmarshalled) \<Rightarrow> (string \<Rightarrow> string \<Rightarrow> error option) \<Rightarrow> bucket \<Rightarrow> User \<Rightarrow>
   (bool \<times> error option) outcome" where
  "AuthenticateLocalUser unmarshal compare b incoming =
     (case GetUser unmarshal b (Username incoming) of
        Panics \<Rightarrow> Panics
      | Returns (current, Some err) \<Rightarrow> Returns (False, Some err)
      | Returns (current, None) \<Rightarrow>
          (case CompareHashAndPassword compare (Password current) (Password incoming) of
             Some err \<Rightarrow> Returns (False, Some err)
           | None \<Rightarrow> Returns (True, None)))"

text \<open>
  The \<open>Authenticator\<close> callback of the local login. \<open>loginVals\<close> is the result of
  \<open>c.ShouldBind\<close>: \<open>None\<close> when binding fails.
\<close>

record login =
  LoginUsername :: string
  LoginPassword :: string

definition Authenticator ::
  "(string \<Rightarrow> unmarshalled) \<Rightarrow> (string \<Rightarrow> string \<Rightarrow> error option) \<Rightarrow> bucket \<Rightarrow>
   login option \<Rightarrow> (bool option \<times> error option) outcome" where
  "Authenticator unmarshal compare b bound =
     (case bound of
        None \<Rightarrow> Returns (None, Some ErrMissingLoginValues)
      | Some loginVals \<Rightarrow>
          (let user = \<lparr>Username = LoginUsername loginVals,
                       Password = LoginPassword loginVals, Token = []\<rparr>
           in case AuthenticateLocalUser unmarshal compare b user of
                Panics \<Rightarrow> Panics
              | Returns (authenticated, Some err) \<Rightarrow> Returns (None, Some ErrFailedAuthentication)
              | Returns (authenticated, None) \<Rightarrow> Returns (Some authenticated, None)))"

subsection \<open>Bulk provisioning\<close>









subsection \<open>A small codec and hasher to run the model\<close>


definition bar_unmarshal :: "string \<Rightarrow> unmarshalled" where
  "bar_unmarshal data =
     (case Split data CHR ''|'' of
        [n, p, t] \<Rightarrow> Value \<lparr>Username = n, Password = p, Token = t\<rparr>
      | _ \<Rightarrow> Malformed)"


definition prefix_compare :: "string \<Rightarrow> string \<Rightarrow> error option" where
  "prefix_compare hashedPassword password =
     (if hashedPassword
           = ''############################################################'' @ password
      then None
      else Some ErrMismatchedHashAndPassword)"

section \<open>Package middleware: the GitHub gate\<close>

subsection \<open>Organisation membership\<close>

text \<open>
  The request to \<open>api.github.com/user/orgs\<close> is the parameter \<open>reply\<close>: the request
  could not be built, the client returned an error, or a status code came back with
  a body, which is \<open>None\<close> when reading it fails and otherwise the login names that
  the JSON path \<open>#.login\<close> selects. \<open>Hash\<close> is the intersection of the go-intersect
  library: the elements of the second list that occur in the first.
\<close>

datatype orgs_reply = NoRequest | NoResponse | Reply nat "string list option"

datatype gate_error =
    CreateRequestFailed
  | TransportFailed
  | GitHubReturnedError
  | ReadBodyFailed
  | NotMemberOfRequiredOrg

definition Hash :: "'a list \<Rightarrow> 'a list \<Rightarrow> 'a list" where
  "Hash a b = filter (\<lambda>el. el \<in> set a) b"

definition userMemberOfRequiredOrg :: "string list \<Rightarrow> orgs_reply \<Rightarrow> gate_error option" where
  "userMemberOfRequiredOrg GitHubUserOrgs reply =
     (case reply of
        NoRequest \<Rightarrow> Some CreateRequestFailed
      | NoResponse \<Rightarrow> Some TransportFailed
      | Reply StatusCode body \<Rightarrow>
          if StatusCode \<ge> 400 then Some GitHubReturnedError
          else
            (case body of
               None \<Rightarrow> Some ReadBodyFailed
             | Some logins \<Rightarrow>
                 (let userOrgs = map ToLower logins;
                      requiredOrgs = map ToLower GitHubUserOrgs
                  in if length (Hash requiredOrgs userOrgs) \<noteq> 0 then None
                     else Some NotMemberOfRequiredOrg)))"

subsection \<open>The request-time check of the session token\<close>

text \<open>
  \<open>jwt.Parse\<close> of the golang-jwt library, which the program calls with its own key
  function: the token string is decoded into header and claims, the method named by
  the header is looked up among the registered signing methods, the key function is
  asked for the key, the registered claims are validated, and the signature is
  checked with the method of the header. Decoding (\<open>decode\<close>), the validation of
  the claims (\<open>claimsValid\<close>) and the signature check of a method (\<open>Verify\<close>) are
  parameters. A claim value is a string or something else.
\<close>

datatype claim = Str string | NotStr

record raw_token =
  HeaderAlg :: "string option"
  RawClaims :: "(string \<times> claim) list"
  SigningString :: string
  Signature :: string

record jwt_token =
  Method :: string
  Claims :: "(string \<times> claim) list"

datatype jwt_error =
    ValidationErrorMalformed
  | ValidationErrorUnverifiable
  | ValidationErrorClaimsInvalid
  | ValidationErrorSignatureInvalid

datatype key_error = ErrInvalidSigningAlgorithm

definition signing_methods :: "string list" where
  "signing_methods =
     [''HS256'', ''HS384'', ''HS512'', ''RS256'', ''RS384'', ''RS512'',
      ''PS256'', ''PS384'', ''PS512'', ''ES256'', ''ES384'', ''ES512'',
      ''EdDSA'', ''none'']"

definition GetSigningMethod :: "string \<Rightarrow> string option" where
  "GetSigningMethod alg = (if alg \<in> set signing_methods then Some alg else None)"

definition jwt_Parse ::
  "(string \<Rightarrow> raw_token option) \<Rightarrow> (raw_token \<Rightarrow> bool) \<Rightarrow>
   (string \<Rightarrow> string \<Rightarrow> string \<Rightarrow> string \<Rightarrow> bool) \<Rightarrow>
   (jwt_token \<Rightarrow> key_error + string) \<Rightarrow> string \<Rightarrow> jwt_error + jwt_token" where
  "jwt_Parse decode claimsValid Verify keyFunc tokenString =
     (case decode tokenString of
        None \<Rightarrow> Inl ValidationErrorMalformed
      | Some raw \<Rightarrow>
          (case HeaderAlg raw of
             None \<Rightarrow> Inl ValidationErrorUnverifiable
           | Some alg \<Rightarrow>
               (case GetSigningMethod alg of
                  None \<Rightarrow> Inl ValidationErrorUnverifiable
                | Some method \<Rightarrow>
                    (let token = \<lparr>Method = method, Claims = RawClaims raw\<rparr>
                     in case keyFunc token of
                          Inl err \<Rightarrow> Inl ValidationErrorUnverifiable
                        | Inr key \<Rightarrow>
                            if \<not> claimsValid raw then Inl ValidationErrorClaimsInvalid
                            else if \<not> Verify method (SigningString raw) (Signature raw) key
                            then Inl ValidationErrorSignatureInvalid
                            else Inr token))))"

text \<open>
  The middleware. Its configuration and collaborators: the signing secret, the cache
  of validated GitHub tokens (\<open>cacheGet\<close> tells whether a token is found),
  \<open>authenticateGitHubUser\<close> (the text of its error, \<open>None\<close> on success) and the
  policy check \<open>Enforce\<close> (\<open>None\<close> when it returns an error).
\<close>

record github_env =
  decode :: "string \<Rightarrow> raw_token option"
  claimsValid :: "raw_token \<Rightarrow> bool"
  Verify :: "string \<Rightarrow> string \<Rightarrow> string \<Rightarrow> string \<Rightarrow> bool"
  JWTSecretKey :: string
  cacheGet :: "string \<Rightarrow> bool"
  authenticateGitHubUser :: "string \<Rightarrow> string option"
  Enforce :: "string \<Rightarrow> string \<Rightarrow> string \<Rightarrow> bool option"

record request =
  Authorization :: string
  Path :: string
  HTTPMethod :: string

datatype response = Aborted nat string | Passed | Panicked

definition RoleKey :: string where
  "RoleKey = ''role''"

definition GitHubTokenKey :: string where
  "GitHubTokenKey = ''github_token''"

definition keyFunc :: "string \<Rightarrow> jwt_token \<Rightarrow> key_error + string" where
  "keyFunc secret t =
     (if GetSigningMethod ''HS256'' \<noteq> Some (Method t) then Inl ErrInvalidSigningAlgorithm
      else Inr secret)"

text \<open>The type assertion \<open>claims[key].(string)\<close>: \<open>None\<close> where it panics.\<close>

definition claim_string :: "(string \<times> claim) list \<Rightarrow> string \<Rightarrow> string option" where
  "claim_string claims key =
     (case map_of claims key of Some (Str s) \<Rightarrow> Some s | _ \<Rightarrow> None)"

definition GitHubMiddlewareFunc :: "github_env \<Rightarrow> request \<Rightarrow> response" where
  "GitHubMiddlewareFunc m c =
     (let auth = Authorization c
      in if auth = [] then Aborted 400 ''missing authorization header''
         else
           (let authFields = Split auth CHR '' ''
            in if length authFields \<noteq> 2 \<or> ToLower (authFields ! 0) \<noteq> ''bearer''
               then Aborted 400 ''unable to parse bearer token from request''
               else
                 (case jwt_Parse (decode m) (claimsValid m) (Verify m)
                         (keyFunc (JWTSecretKey m)) (authFields ! 1) of
                    Inl err \<Rightarrow> Aborted 403 ''unable to parse jwt token from request''
                  | Inr jwtToken \<Rightarrow>
                      (let claims = Claims jwtToken
                       in if length claims = 0
                          then Aborted 403 ''unable to extract claims from request''
                          else
                            (case claim_string claims RoleKey of
                               None \<Rightarrow> Panicked
                             | Some role \<Rightarrow>
                                 (case claim_string claims GitHubTokenKey of
                                    None \<Rightarrow> Panicked
                                  | Some ghAccessToken \<Rightarrow>
                                      (case (if \<not> cacheGet m ghAccessToken
                                             then authenticateGitHubUser m ghAccessToken
                                             else None) of
                                         Some err \<Rightarrow>
                                           Aborted 403
                                             (''failed to fetch github user with provided token: ''
                                              @ err)
                                       | None \<Rightarrow>
                                           (case Enforce m role (Path c) (HTTPMethod c) of
                                              None \<Rightarrow> Aborted 403 ''failed to check acl''
                                            | Some ok \<Rightarrow>
                                                if \<not> ok
                                                then Aborted 403 ''denied access to resource by ACL''
                                                else Passed))))))))"

text \<open>
  To run the middleware on concrete requests: a decoder of tokens written as the
  algorithm name, the role and the GitHub token separated by dots, and an
  environment whose signature check accepts every signature under every method.
\<close>

definition dot_decode :: "string \<Rightarrow> raw_token option" where
  "dot_decode tokenString =
     (case Split tokenString CHR ''.'' of
        [alg, role, gh] \<Rightarrow>
          Some \<lparr>HeaderAlg = Some alg,
                RawClaims = [(''role'', Str role), (''github_token'', Str gh)],
                SigningString = alg @ ''.'' @ role, Signature = gh\<rparr>
      | _ \<Rightarrow> None)"

definition open_env :: github_env where
  "open_env =
     \<lparr>decode = dot_decode, claimsValid = (\<lambda>raw. True),
      Verify = (\<lambda>method signingString signature key. True),
      JWTSecretKey = ''secret'', cacheGet = (\<lambda>token. True),
      authenticateGitHubUser = (\<lambda>token. None),
      Enforce = (\<lambda>role path method. Some True)\<rparr>"

section \<open>Properties of the string helpers\<close>

lemma Split_not_Nil: "Split s sep \<noteq> []"
  by (induction s) (auto split: list.splits)

lemma Join_Split: "Join (Split s sep) [sep] = s"
proof (induction s)
  case Nil
  show ?case by simp
next
  case (Cons c cs)
  obtain x xs where sp: "Split cs sep = x # xs"
    using Split_not_Nil [of cs sep] by (cases "Split cs sep") auto
  show ?case
  proof (cases "c = sep")
    case True
    with Cons sp show ?thesis by simp
  next
    case False
    with Cons sp show ?thesis by (cases xs) auto
  qed
qed

lemma Split_no_sep: "x \<in> set (Split s sep) \<Longrightarrow> sep \<notin> set x"
proof (induction s arbitrary: x)
  case Nil
  then show ?case by simp
next
  case (Cons c cs)
  obtain y ys where sp: "Split cs sep = y # ys"
    using Split_not_Nil [of cs sep] by (cases "Split cs sep") auto
  have ih: "\<And>z. z \<in> set (y # ys) \<Longrightarrow> sep \<notin> set z"
    using Cons.IH sp by simp
  show ?case
  proof (cases "c = sep")
    case True
    with Cons.prems sp ih show ?thesis by auto
  next
    case False
    with Cons.prems sp ih show ?thesis by auto
  qed
qed

lemma Split_length: "length (Split s sep) = Suc (length (filter (\<lambda>c. c = sep) s))"
proof (induction s)
  case Nil
  show ?case by simp
next
  case (Cons c cs)
  obtain y ys where sp: "Split cs sep = y # ys"
    using Split_not_Nil [of cs sep] by (cases "Split cs sep") auto
  with Cons show ?case by auto
qed

lemma Split_two: "sep \<in> set s \<Longrightarrow> 2 \<le> length (Split s sep)"
proof -
  assume "sep \<in> set s"
  then have "filter (\<lambda>c. c = sep) s \<noteq> []"
    by (simp add: filter_empty_conv)
  then show ?thesis
    using Split_length [of s sep] by (cases "filter (\<lambda>c. c = sep) s") auto
qed

lemma GemFromGemParameter_loop_last:
  "chunks \<noteq> [] \<Longrightarrow> i + length chunks = l \<Longrightarrow>
   GemFromGemParameter_loop i l chunks acc v = (acc @ butlast chunks, last chunks)"
proof (induction chunks arbitrary: i acc)
  case Nil
  then show ?case by simp
next
  case (Cons c cs)
  show ?case
  proof (cases cs)
    case Nil
    with Cons.prems show ?thesis by simp
  next
    case (Cons d ds)
    with Cons.prems Cons.IH [of "i + 1" "acc @ [c]"] show ?thesis by simp
  qed
qed

lemma Join_butlast:
  "2 \<le> length xs \<Longrightarrow> Join (butlast xs) sep @ sep @ last xs = Join xs sep"
proof (induction xs sep rule: Join.induct)
  case (1 sep)
  then show ?case by simp
next
  case (2 x sep)
  then show ?case by simp
next
  case (3 x y ys sep)
  show ?case
  proof (cases ys)
    case Nil
    then show ?thesis by simp
  next
    case (Cons z zs)
    with 3 show ?thesis by simp
  qed
qed

lemma GemFromGemParameter_fields:
  "GemFromGemParameter param =
     \<lparr>Name = Join (butlast (Split param CHR ''-'')) ''-'',
      Number = last (Split param CHR ''-''), Platform = []\<rparr>"
  using GemFromGemParameter_loop_last [of "Split param CHR ''-''" 0 _ "[]" "[]"]
  by (simp add: GemFromGemParameter_def Let_def Split_not_Nil)

section \<open>Properties of the admission decision\<close>

text \<open>
  Claim C1. An advisory is returned by \<open>GetCVEs\<close> only if the version satisfies none
  of its patched constraints, none of its unaffected constraints, and its own
  severity is above the threshold. The code does not keep this: the second advisory
  it appends is guarded by the severity of the first one and is never tested against
  its own patched constraints. With the threshold \<open>medium\<close> and the version
  \<open>1.5\<close>, the advisory \<open>advisory_low\<close> (severity low, patched from \<open>1.0\<close> on) is
  returned behind \<open>advisory_critical\<close>.
\<close>

theorem GetCVEs_patched_low_advisory_listed:
  "GetCVEs dotted_NewVersion dotted_Check [''rack'' \<mapsto> [advisory_low, advisory_critical]]
     ''medium'' ''rack'' ''1.5'' = [advisory_critical, advisory_low]
   \<and> dotted_NewVersion ''1.5'' = Some [1, 5]
   \<and> isPatchedVersion dotted_Check [1, 5] advisory_low
   \<and> acceptableSeverity ''medium'' advisory_low"
  by code_simp

text \<open>
  Claim C2. The severity classes of a CVSS v2 score are low for 0 to 3.9, medium for
  4.0 to 6.9 and high for 7.0 to 10.0. The first test of the v2 branch compares the
  score with zero by equality inside a branch where the score is not zero, so no
  score is ever classified low: a v2 score of 2.6 with no v3 score yields
  \<open>none\<close>.
\<close>

theorem severity_cvss_v2_low_band:
  "severity (GemAdvisory_zero\<lparr>CvssV2 := 2.6\<rparr>) = ''none''"
  by (simp add: severity_def GemAdvisory_zero_def)

text \<open>
  Claim C5. The acceptability check passes every advisory of severity \<open>none\<close>, passes
  everything under the threshold \<open>critical\<close>, fails every other severity under
  \<open>low\<close>, passes exactly none, low and medium under \<open>medium\<close>, and exactly none,
  low, medium and high under \<open>high\<close>. The threshold is compared after lowering.
\<close>

theorem acceptableSeverity_policy:
  "(severity cve = ''none'' \<longrightarrow> acceptableSeverity MaxSeverity cve) \<and>
   (ToLower MaxSeverity = ''critical'' \<longrightarrow> acceptableSeverity MaxSeverity cve) \<and>
   (ToLower MaxSeverity = ''low'' \<and> severity cve \<noteq> ''none'' \<longrightarrow>
      \<not> acceptableSeverity MaxSeverity cve) \<and>
   (ToLower MaxSeverity = ''medium'' \<longrightarrow>
      (acceptableSeverity MaxSeverity cve \<longleftrightarrow>
         severity cve \<in> {''none'', ''low'', ''medium''})) \<and>
   (ToLower MaxSeverity = ''high'' \<longrightarrow>
      (acceptableSeverity MaxSeverity cve \<longleftrightarrow>
         severity cve \<in> {''none'', ''low'', ''medium'', ''high''}))"
  by (auto simp add: acceptableSeverity_def Let_def)


theorem acceptableSeverity_policy_witness:
  "\<not> acceptableSeverity ''medium'' advisory_high
   \<and> acceptableSeverity ''critical'' advisory_high
   \<and> acceptableSeverity ''High'' advisory_high
   \<and> \<not> acceptableSeverity ''low'' advisory_low
   \<and> acceptableSeverity ''low'' GemAdvisory_zero"
proof -
  have sh: "severity advisory_high = ''high''" by code_simp
  have sl: "severity advisory_low = ''low''" by code_simp
  have sz: "severity GemAdvisory_zero = ''none''" by code_simp
  have tm: "ToLower ''medium'' = ''medium''" by code_simp
  have tc: "ToLower ''critical'' = ''critical''" by code_simp
  have th: "ToLower ''High'' = ''high''" by code_simp
  have tl: "ToLower ''low'' = ''low''" by code_simp
  show ?thesis
    using sh sl sz tm tc th tl
      acceptableSeverity_policy [of advisory_high "''medium''"]
      acceptableSeverity_policy [of advisory_high "''critical''"]
      acceptableSeverity_policy [of advisory_high "''High''"]
      acceptableSeverity_policy [of advisory_low "''low''"]
      acceptableSeverity_policy [of GemAdvisory_zero "''low''"]
    by simp
qed



section \<open>Properties of gem parameters\<close>

text \<open>
  Claim C10. For a parameter with at least one hyphen, \<open>Number\<close> is the part after
  the last hyphen (it has no hyphen itself) and \<open>Name\<close> is the part before it:
  name, hyphen and number put together give the parameter back.
\<close>

theorem GemFromGemParameter_roundtrip:
  assumes "CHR ''-'' \<in> set param"
  shows "Name (GemFromGemParameter param) @ ''-'' @ Number (GemFromGemParameter param) = param
         \<and> CHR ''-'' \<notin> set (Number (GemFromGemParameter param))"
proof -
  let ?chunks = "Split param CHR ''-''"
  have two: "2 \<le> length ?chunks" using assms by (rule Split_two)
  have "Join (butlast ?chunks) ''-'' @ ''-'' @ last ?chunks = Join ?chunks ''-''"
    using two by (rule Join_butlast)
  also have "\<dots> = param" by (rule Join_Split)
  finally have rt: "Join (butlast ?chunks) ''-'' @ ''-'' @ last ?chunks = param" .
  have "last ?chunks \<in> set ?chunks" by (simp add: Split_not_Nil)
  then have "CHR ''-'' \<notin> set (last ?chunks)" by (rule Split_no_sep)
  with rt show ?thesis by (simp add: GemFromGemParameter_fields)
qed

theorem GemFromGemParameter_roundtrip_witness:
  "CHR ''-'' \<in> set ''rack-protection-2.0.1''
   \<and> GemFromGemParameter ''rack-protection-2.0.1''
       = \<lparr>Name = ''rack-protection'', Number = ''2.0.1'', Platform = []\<rparr>
   \<and> Name (GemFromGemParameter ''rack-protection-2.0.1'') @ ''-''
       @ Number (GemFromGemParameter ''rack-protection-2.0.1'') = ''rack-protection-2.0.1''"
proof -
  have h: "CHR ''-'' \<in> set ''rack-protection-2.0.1''" by simp
  have e: "GemFromGemParameter ''rack-protection-2.0.1''
       = \<lparr>Name = ''rack-protection'', Number = ''2.0.1'', Platform = []\<rparr>" by code_simp
  show ?thesis using h e GemFromGemParameter_roundtrip [OF h] by simp
qed

section \<open>Properties of the GitHub gate\<close>

text \<open>
  Claim C3. When the organisations of the caller have been fetched, the gate passes
  if and only if a required organisation and an organisation of the caller are equal
  after lowering; with an empty list of required organisations the gate returns an
  error for every caller, whatever the reply.
\<close>

theorem userMemberOfRequiredOrg_iff:
  "(StatusCode < 400 \<longrightarrow>
      (userMemberOfRequiredOrg GitHubUserOrgs (Reply StatusCode (Some logins)) = None
         \<longleftrightarrow> (\<exists>r \<in> set GitHubUserOrgs. \<exists>u \<in> set logins. ToLower r = ToLower u)))
   \<and> userMemberOfRequiredOrg [] reply \<noteq> None"
proof
  have "Hash (map ToLower GitHubUserOrgs) (map ToLower logins) \<noteq> []
          \<longleftrightarrow> (\<exists>r \<in> set GitHubUserOrgs. \<exists>u \<in> set logins. ToLower r = ToLower u)"
    by (simp add: Hash_def filter_empty_conv image_iff) metis
  then show "StatusCode < 400 \<longrightarrow>
      (userMemberOfRequiredOrg GitHubUserOrgs (Reply StatusCode (Some logins)) = None
         \<longleftrightarrow> (\<exists>r \<in> set GitHubUserOrgs. \<exists>u \<in> set logins. ToLower r = ToLower u))"
    by (simp add: userMemberOfRequiredOrg_def Let_def)
next
  show "userMemberOfRequiredOrg [] reply \<noteq> None"
    by (simp add: userMemberOfRequiredOrg_def Hash_def split: orgs_reply.splits option.splits)
qed

theorem userMemberOfRequiredOrg_iff_witness:
  "userMemberOfRequiredOrg [''acme''] (Reply 200 (Some [''ACME'', ''other''])) = None
   \<and> userMemberOfRequiredOrg [''acme''] (Reply 200 (Some [''other''])) \<noteq> None"
proof -
  have a: "ToLower ''acme'' = ''acme''" by code_simp
  have b: "ToLower ''ACME'' = ''acme''" by code_simp
  have c: "ToLower ''other'' = ''other''" by code_simp
  have s: "(200::nat) < 400" by simp
  show ?thesis
    using a b c s
      userMemberOfRequiredOrg_iff [of 200 "[''acme'']" "[''ACME'', ''other'']" NoRequest]
      userMemberOfRequiredOrg_iff [of 200 "[''acme'']" "[''other'']" NoRequest]
    by simp
qed


lemma GetSigningMethod_Some: "GetSigningMethod alg = Some method \<Longrightarrow> method = alg"
  by (simp add: GetSigningMethod_def split: if_splits)

lemma GetSigningMethod_HS256: "GetSigningMethod ''HS256'' = Some ''HS256''"
  by (simp add: GetSigningMethod_def signing_methods_def)

lemma jwt_Parse_accepts_HS256_only:
  "jwt_Parse dec cv vf (keyFunc secret) tokenString = Inr token \<Longrightarrow>
   \<exists>raw. dec tokenString = Some raw \<and> HeaderAlg raw = Some ''HS256''"
  by (auto simp add: jwt_Parse_def keyFunc_def Let_def GetSigningMethod_HS256
      split: option.splits sum.splits if_splits dest: GetSigningMethod_Some)

text \<open>
  Claim C4. For a well-formed bearer header, a token whose header names any algorithm
  other than HS256 (or none) is rejected with status 403, whatever the signature
  check of that algorithm would say; and the middleware lets a request pass only if
  the header of its token names HS256.
\<close>

theorem GitHubMiddlewareFunc_fixed_algorithm:
  assumes "Split (Authorization c) CHR '' '' = [scheme, tokenString]"
    and "ToLower scheme = ''bearer''"
  shows "(\<forall>raw. decode m tokenString = Some raw \<and> HeaderAlg raw \<noteq> Some ''HS256'' \<longrightarrow>
            GitHubMiddlewareFunc m c = Aborted 403 ''unable to parse jwt token from request'')
         \<and> (GitHubMiddlewareFunc m c = Passed \<longrightarrow>
              (\<exists>raw. decode m tokenString = Some raw \<and> HeaderAlg raw = Some ''HS256''))"
proof -
  have ne: "Authorization c \<noteq> []" using assms(1) by auto
  have rej: "jwt_Parse (decode m) (claimsValid m) (Verify m) (keyFunc (JWTSecretKey m)) tokenString
               = Inl e \<Longrightarrow>
             GitHubMiddlewareFunc m c = Aborted 403 ''unable to parse jwt token from request''" for e
    using assms ne by (simp add: GitHubMiddlewareFunc_def Let_def)
  have pas: "GitHubMiddlewareFunc m c = Passed \<Longrightarrow>
             \<exists>t. jwt_Parse (decode m) (claimsValid m) (Verify m) (keyFunc (JWTSecretKey m)) tokenString
               = Inr t"
    using assms ne by (simp add: GitHubMiddlewareFunc_def Let_def split: sum.splits)
  show ?thesis
  proof (intro conjI allI impI)
    fix raw
    assume a: "decode m tokenString = Some raw \<and> HeaderAlg raw \<noteq> Some ''HS256''"
    show "GitHubMiddlewareFunc m c = Aborted 403 ''unable to parse jwt token from request''"
    proof (cases "jwt_Parse (decode m) (claimsValid m) (Verify m) (keyFunc (JWTSecretKey m)) tokenString")
      case (Inl e)
      then show ?thesis by (rule rej)
    next
      case (Inr t)
      then have "\<exists>raw. decode m tokenString = Some raw \<and> HeaderAlg raw = Some ''HS256''"
        by (rule jwt_Parse_accepts_HS256_only)
      with a show ?thesis by auto
    qed
  next
    assume "GitHubMiddlewareFunc m c = Passed"
    then obtain t where "jwt_Parse (decode m) (claimsValid m) (Verify m) (keyFunc (JWTSecretKey m)) tokenString = Inr t"
      using pas by blast
    then show "\<exists>raw. decode m tokenString = Some raw \<and> HeaderAlg raw = Some ''HS256''"
      by (rule jwt_Parse_accepts_HS256_only)
  qed
qed

theorem GitHubMiddlewareFunc_fixed_algorithm_witness:
  "GitHubMiddlewareFunc open_env
     \<lparr>Authorization = ''Bearer none.admin.ghtok'', Path = ''/gems'', HTTPMethod = ''GET''\<rparr>
     = Aborted 403 ''unable to parse jwt token from request''
   \<and> GitHubMiddlewareFunc open_env
     \<lparr>Authorization = ''Bearer HS256.admin.ghtok'', Path = ''/gems'', HTTPMethod = ''GET''\<rparr>
     = Passed
   \<and> (\<exists>raw. decode open_env ''HS256.admin.ghtok'' = Some raw \<and> HeaderAlg raw = Some ''HS256'')"
proof -
  let ?bad = "\<lparr>Authorization = ''Bearer none.admin.ghtok'', Path = ''/gems'', HTTPMethod = ''GET''\<rparr>"
  let ?good = "\<lparr>Authorization = ''Bearer HS256.admin.ghtok'', Path = ''/gems'', HTTPMethod = ''GET''\<rparr>"
  let ?raw = "\<lparr>HeaderAlg = Some ''none'',
               RawClaims = [(''role'', Str ''admin''), (''github_token'', Str ''ghtok'')],
               SigningString = ''none.admin'', Signature = ''ghtok''\<rparr>"
  have sb: "Split (Authorization ?bad) CHR '' '' = [''Bearer'', ''none.admin.ghtok'']" by simp
  have sg: "Split (Authorization ?good) CHR '' '' = [''Bearer'', ''HS256.admin.ghtok'']" by simp
  have lo: "ToLower ''Bearer'' = ''bearer''" by code_simp
  have dd: "dot_decode ''none.admin.ghtok'' = Some ?raw" by code_simp
  have de: "decode open_env ''none.admin.ghtok'' = Some ?raw"
    using dd by (simp add: open_env_def)
  have al: "HeaderAlg ?raw \<noteq> Some ''HS256''" by simp
  have pg: "GitHubMiddlewareFunc open_env ?good = Passed" by code_simp
  have bad: "GitHubMiddlewareFunc open_env ?bad
               = Aborted 403 ''unable to parse jwt token from request''"
    using GitHubMiddlewareFunc_fixed_algorithm [OF sb lo, of open_env] de al by blast
  have good: "\<exists>raw. decode open_env ''HS256.admin.ghtok'' = Some raw \<and> HeaderAlg raw = Some ''HS256''"
    using GitHubMiddlewareFunc_fixed_algorithm [OF sg lo, of open_env] pg by blast
  show ?thesis using bad pg good by simp
qed

section \<open>Properties of the user directory and the local login\<close>

text \<open>
  Claim C7. The login callback returns the same failure, \<open>ErrFailedAuthentication\<close>,
  when no record is stored under the user name and when a record is stored but the
  comparison of its hash with the supplied password fails.
\<close>

theorem Authenticator_uniform_failure:
  assumes "Get absent username = None"
    and "Get present username = Some data" and "data \<noteq> []"
    and "unmarshal data = Value current"
    and "CompareHashAndPassword compare (Password current) password \<noteq> None"
  shows "Authenticator unmarshal compare absent
           (Some \<lparr>LoginUsername = username, LoginPassword = password\<rparr>)
           = Returns (None, Some ErrFailedAuthentication)
         \<and> Authenticator unmarshal compare present
           (Some \<lparr>LoginUsername = username, LoginPassword = password\<rparr>)
           = Returns (None, Some ErrFailedAuthentication)"
proof
  show "Authenticator unmarshal compare absent
           (Some \<lparr>LoginUsername = username, LoginPassword = password\<rparr>)
           = Returns (None, Some ErrFailedAuthentication)"
    using assms(1)
    by (simp add: Authenticator_def AuthenticateLocalUser_def GetUser_def User_zero_def
        CompareHashAndPassword_def)
next
  obtain err where "CompareHashAndPassword compare (Password current) password = Some err"
    using assms(5) by auto
  then show "Authenticator unmarshal compare present
           (Some \<lparr>LoginUsername = username, LoginPassword = password\<rparr>)
           = Returns (None, Some ErrFailedAuthentication)"
    using assms(2,3,4)
    by (simp add: Authenticator_def AuthenticateLocalUser_def GetUser_def userFromBytes_def)
qed

theorem Authenticator_uniform_failure_witness:
  "Authenticator bar_unmarshal prefix_compare [(''admin'', ''admin|x|'')]
     (Some \<lparr>LoginUsername = ''alice'', LoginPassword = ''guess''\<rparr>)
     = Returns (None, Some ErrFailedAuthentication)
   \<and> Authenticator bar_unmarshal prefix_compare
       [(''alice'', ''alice|############################################################pw1|'')]
     (Some \<lparr>LoginUsername = ''alice'', LoginPassword = ''guess''\<rparr>)
     = Returns (None, Some ErrFailedAuthentication)
   \<and> Authenticator bar_unmarshal prefix_compare
       [(''alice'', ''alice|############################################################pw1|'')]
     (Some \<lparr>LoginUsername = ''alice'', LoginPassword = ''pw1''\<rparr>)
     = Returns (Some True, None)"
proof -
  let ?hash = "''############################################################pw1''"
  let ?data = "''alice|############################################################pw1|''"
  have a: "Get [(''admin'', ''admin|x|'')] ''alice'' = None" by (simp add: Get_def)
  have p: "Get [(''alice'', ?data)] ''alice'' = Some ?data" by (simp add: Get_def)
  have n: "?data \<noteq> []" by simp
  have u: "bar_unmarshal ?data = Value \<lparr>Username = ''alice'', Password = ?hash, Token = []\<rparr>"
    by code_simp
  have c: "CompareHashAndPassword prefix_compare
             (Password \<lparr>Username = ''alice'', Password = ?hash, Token = []\<rparr>) ''guess'' \<noteq> None"
    by code_simp
  have ok: "Authenticator bar_unmarshal prefix_compare [(''alice'', ?data)]
     (Some \<lparr>LoginUsername = ''alice'', LoginPassword = ''pw1''\<rparr>) = Returns (Some True, None)"
    by code_simp
  show ?thesis
    using Authenticator_uniform_failure
        [of "[(''admin'', ''admin|x|'')]" "''alice''" "[(''alice'', ?data)]" ?data bar_unmarshal
          "\<lparr>Username = ''alice'', Password = ?hash, Token = []\<rparr>" prefix_compare "''guess''",
         OF a p n u c]
      ok
    by simp
qed

text \<open>
  Claim C9, as stated: a lookup of a user name without a record yields an outcome
  that differs from a found account. It does not: \<open>GetUser\<close> returns the zero user
  and no error, which is also what it returns for a stored record whose three fields
  are empty.
\<close>

theorem GetUser_missing_returns_zero_user:
  "GetUser bar_unmarshal [] ''bob'' = Returns (User_zero, None)
   \<and> GetUser bar_unmarshal [(''bob'', ''||'')] ''bob'' = Returns (User_zero, None)"
  by code_simp

text \<open>
  Claim C9, amended: for a user name without a stored record, \<open>GetUser\<close> returns the
  zero-value user (empty name, password and token) and no error.
\<close>

theorem GetUser_missing:
  "Get b username = None \<Longrightarrow> GetUser unmarshal b username = Returns (User_zero, None)"
  by (simp add: GetUser_def)

theorem GetUser_missing_witness:
  "Get [(''admin'', ''admin|x|'')] ''bob'' = None
   \<and> GetUser bar_unmarshal [(''admin'', ''admin|x|'')] ''bob'' = Returns (User_zero, None)"
proof -
  have h: "Get [(''admin'', ''admin|x|'')] ''bob'' = None" by (simp add: Get_def)
  show ?thesis using h GetUser_missing [OF h, of bar_unmarshal] by simp
qed

section \<open>Properties of bulk provisioning\<close>








end
